theory Spec2Isabelle
  imports Complex_Main
begin

section \<open>Numbers held in a numpy array\<close>

text \<open>
  The numeric stoichiometry of a \<open>Process\<close> is a numpy array of floats. A finite float
  is modelled by the real number it stands for (rounding, overflow and the sign of zero
  are left out); the three special values are kept, because numpy's true division by
  zero stores them in the array: \<open>x / 0.0\<close> is \<open>inf\<close>, \<open>-inf\<close> or \<open>nan\<close>.
\<close>

datatype float64 = Finite real | PInf | NInf | NaN

instantiation float64 :: "{zero, one, uminus, abs, plus, times, divide}"
begin

definition zero_float64 :: float64 where
  "zero_float64 = Finite 0"

definition one_float64 :: float64 where
  "one_float64 = Finite 1"

fun uminus_float64 :: "float64 \<Rightarrow> float64" where
  "uminus_float64 (Finite x) = Finite (- x)"
| "uminus_float64 PInf = NInf"
| "uminus_float64 NInf = PInf"
| "uminus_float64 NaN = NaN"

fun abs_float64 :: "float64 \<Rightarrow> float64" where
  "abs_float64 (Finite x) = Finite \<bar>x\<bar>"
| "abs_float64 PInf = PInf"
| "abs_float64 NInf = PInf"
| "abs_float64 NaN = NaN"

fun plus_float64 :: "float64 \<Rightarrow> float64 \<Rightarrow> float64" where
  "plus_float64 (Finite x) (Finite y) = Finite (x + y)"
| "plus_float64 NaN b = NaN"
| "plus_float64 a NaN = NaN"
| "plus_float64 PInf NInf = NaN"
| "plus_float64 NInf PInf = NaN"
| "plus_float64 PInf b = PInf"
| "plus_float64 NInf b = NInf"
| "plus_float64 a PInf = PInf"
| "plus_float64 a NInf = NInf"

fun times_float64 :: "float64 \<Rightarrow> float64 \<Rightarrow> float64" where
  "times_float64 (Finite x) (Finite y) = Finite (x * y)"
| "times_float64 NaN b = NaN"
| "times_float64 a NaN = NaN"
| "times_float64 (Finite x) PInf = (if x = 0 then NaN else if 0 < x then PInf else NInf)"
| "times_float64 (Finite x) NInf = (if x = 0 then NaN else if 0 < x then NInf else PInf)"
| "times_float64 PInf (Finite y) = (if y = 0 then NaN else if 0 < y then PInf else NInf)"
| "times_float64 NInf (Finite y) = (if y = 0 then NaN else if 0 < y then NInf else PInf)"
| "times_float64 PInf PInf = PInf"
| "times_float64 PInf NInf = NInf"
| "times_float64 NInf PInf = NInf"
| "times_float64 NInf NInf = PInf"

text \<open>
  True division. A zero divisor is the positive zero here: every divisor of the program
  is the result of \<open>abs\<close>.
\<close>

fun divide_float64 :: "float64 \<Rightarrow> float64 \<Rightarrow> float64" where
  "divide_float64 (Finite x) (Finite y) =
     (if y \<noteq> 0 then Finite (x / y)
      else if x = 0 then NaN else if 0 < x then PInf else NInf)"
| "divide_float64 NaN b = NaN"
| "divide_float64 a NaN = NaN"
| "divide_float64 (Finite x) PInf = Finite 0"
| "divide_float64 (Finite x) NInf = Finite 0"
| "divide_float64 PInf (Finite y) = (if y < 0 then NInf else PInf)"
| "divide_float64 NInf (Finite y) = (if y < 0 then PInf else NInf)"
| "divide_float64 PInf PInf = NaN"
| "divide_float64 PInf NInf = NaN"
| "divide_float64 NInf PInf = NaN"
| "divide_float64 NInf NInf = NaN"

instance ..

end

instantiation float64 :: inverse
begin

definition inverse_float64 :: "float64 \<Rightarrow> float64" where
  "inverse_float64 a = Finite 1 div a"

instance ..

end


text \<open>
  The floating-point status flags a division sets: divide-by-zero for a finite non-zero
  number over zero, invalid for \<open>0 / 0\<close> and \<open>inf / inf\<close>. A \<open>nan\<close> operand sets
  none, and neither does \<open>inf / 0\<close>.
\<close>

fun fp_divide :: "float64 \<Rightarrow> float64 \<Rightarrow> bool" where
  "fp_divide (Finite x) (Finite y) = (y = 0 \<and> x \<noteq> 0)"
| "fp_divide a b = False"

fun fp_invalid :: "float64 \<Rightarrow> float64 \<Rightarrow> bool" where
  "fp_invalid (Finite x) (Finite y) = (y = 0 \<and> x = 0)"
| "fp_invalid PInf PInf = True"
| "fp_invalid PInf NInf = True"
| "fp_invalid NInf PInf = True"
| "fp_invalid NInf NInf = True"
| "fp_invalid a b = False"

text \<open>
  numpy's error state (\<open>np.seterr\<close>), a global setting: whether a flag left by an array
  operation raises \<open>FloatingPointError\<close>. numpy's own default raises on neither; the
  module runs with thermosteam imported, which sets it. The operation runs over the whole
  array before the flags are looked at, so an in-place operation that raises has already
  written its result.
\<close>

record errstate =
  raise_divide :: bool
  raise_invalid :: bool

definition true_divide_raises :: "errstate \<Rightarrow> float64 list \<Rightarrow> float64 \<Rightarrow> bool" where
  "true_divide_raises err xs factor =
     ((raise_divide err \<and> list_ex (\<lambda>v. fp_divide v factor) xs) \<or>
      (raise_invalid err \<and> list_ex (\<lambda>v. fp_invalid v factor) xs))"

section \<open>Exceptions\<close>

text \<open>
  The Python exceptions the program can raise, as values. \<open>check_conservation\<close> raises
  \<open>RuntimeError\<close> with two different messages; they are the two constructors
  \<open>NonNumericStoichiometryError\<close> ("Can only check conservations with numerical
  stoichiometric coefficients.") and \<open>ConservationViolationError\<close> ("The following
  materials are unconserved ..."), the second with the list \<open>unconserved\<close> its message
  is built from. \<open>DuplicateParameterError\<close> and \<open>ZeroReferenceCoefficientError\<close> are
  names of the specification: no \<open>raise\<close> of the source produces them.
\<close>

datatype error =
    AttributeError
  | KeyError
  | IndexError
  | TypeError
  | ValueError
  | SyntaxError
  | FloatingPointError
  | NonNumericStoichiometryError
  | ConservationViolationError "(string \<times> float64) list"
  | DuplicateParameterError
  | ZeroReferenceCoefficientError

text \<open>
  A method that mutates the object and may raise half-way: the state it leaves is part of
  the outcome in both cases.
\<close>

datatype 'a outcome = Returned 'a | Raised error 'a

fun state_of :: "'a outcome \<Rightarrow> 'a" where
  "state_of (Returned s) = s"
| "state_of (Raised e s) = s"

fun raised :: "'a outcome \<Rightarrow> error option" where
  "raised (Returned s) = None"
| "raised (Raised e s) = Some e"

section \<open>The data of a Process\<close>

text \<open>
  The component catalog (\<open>self._components\<close>): the ordered names \<open>IDs\<close>, the dictionary
  \<open>_index\<close> from a name to its position, and the conversion-factor arrays read by
  \<open>getattr(cmps, 'i_' + name)\<close> (\<open>None\<close>: no such attribute).
\<close>

record components =
  IDs :: "string list"
  index :: "string \<rightharpoonup> nat"
  i_factor :: "string \<rightharpoonup> float64 list"

text \<open>
  \<open>self._stoichiometry\<close> is a numpy array of floats or a Python list of sympy
  expressions; the code tells them apart with \<open>isinstance\<close>. The array is one of
  floats (the reaction parser is not part of these sources; the specification has every
  numeric coefficient a real number). The type \<open>'e\<close> is the type
  of sympy expressions: the operations the program applies to them (\<open>-\<close>, \<open>*\<close>, \<open>/\<close>,
  \<open>abs\<close>, \<open>!= 0\<close>) are those of \<open>'e\<close>, with no law assumed.
\<close>

datatype 'e coeffs = NdArray "float64 list" | PyList "'e list"

text \<open>
  The attributes of the object. An attribute that may be unset is an option
  (\<open>None\<close>: reading it raises \<open>AttributeError\<close>). \<open>u_conservation_for\<close> is the attribute
  \<open>_conservation_for\<close> that \<open>get_conversion_factors\<close> reads; \<open>u_conserved_for\<close> is
  \<open>_conserved_for\<close>, the one the constructor and the property write.
\<close>

record 'e process =
  u_stoichiometry :: "'e coeffs"
  u_components :: components
  u_ref_component :: string
  u_conserved_for :: "string list"
  u_parameters :: "string \<rightharpoonup> 'e"
  u_rate_equation :: "'e option"
  u_conservation_for :: "string list option"

text \<open>A Python dictionary built from key-value pairs: a later pair overwrites.\<close>

definition py_dict :: "('k \<times> 'v) list \<Rightarrow> ('k \<rightharpoonup> 'v)" where
  "py_dict kvs = fold (\<lambda>(k, v) m. m(k \<mapsto> v)) kvs Map.empty"

section \<open>Construction\<close>

text \<open>
  sympy's \<open>symbols\<close> is an argument: the symbol it returns for a name, or the error it
  raises (\<open>ValueError\<close> for the empty name). A dictionary comprehension
  \<open>{n: symbols(n) for n in names}\<close> raises at the first name that \<open>symbols\<close> refuses.
\<close>

fun symbols_dict ::
  "(string \<Rightarrow> error + 'e) \<Rightarrow> string list \<Rightarrow> (string \<rightharpoonup> 'e) \<Rightarrow> error + (string \<rightharpoonup> 'e)" where
  "symbols_dict symbols [] m = Inr m"
| "symbols_dict symbols (n # ns) m =
     (case symbols n of
        Inl e \<Rightarrow> Inl e
      | Inr v \<Rightarrow> symbols_dict symbols ns (m(n \<mapsto> v)))"

text \<open>
  \<open>_parse_rate_eq\<close>. \<open>symbols\<close> and \<open>parse_expr\<close> are sympy's; \<open>eq\<close> is the
  \<open>rate_equation\<close> argument, \<open>None\<close> by default. The parameters overwrite the
  components' symbols in the merged dictionary.
\<close>

definition parse_rate_eq ::
  "(string \<Rightarrow> error + 'e) \<Rightarrow> (string option \<Rightarrow> (string \<rightharpoonup> 'e) \<Rightarrow> error + 'e) \<Rightarrow>
   'e process \<Rightarrow> string option \<Rightarrow> error + 'e process" where
  "parse_rate_eq symbols parse_expr p eq =
     (case symbols_dict symbols (IDs (u_components p)) Map.empty of
        Inl e \<Rightarrow> Inl e
      | Inr cmpconc_symbols \<Rightarrow>
          (case parse_expr eq (cmpconc_symbols ++ u_parameters p) of
             Inl e \<Rightarrow> Inl e
           | Inr r \<Rightarrow> Inr (p\<lparr>u_rate_equation := Some r\<rparr>)))"

text \<open>
  \<open>__init__\<close>. The collaborators are arguments: \<open>load_chemicals\<close> (thermosteam's
  \<open>_load_chemicals\<close>), \<open>get_stoichiometric_coeff\<close> (the reaction parser of module
  \<open>_parse\<close>), \<open>symbols\<close> and \<open>parse_expr\<close> (sympy). \<open>parameters\<close> is \<open>None\<close> by default,
  and iterating over \<open>None\<close> raises \<open>TypeError\<close>. A construction that raises leaves
  no object, so the result is the error alone.
\<close>

definition init ::
  "(components option \<Rightarrow> error + components) \<Rightarrow>
   (string \<Rightarrow> string \<Rightarrow> components \<Rightarrow> string list \<Rightarrow> (string \<rightharpoonup> 'e) \<Rightarrow> error + 'e coeffs) \<Rightarrow>
   (string \<Rightarrow> error + 'e) \<Rightarrow> (string option \<Rightarrow> (string \<rightharpoonup> 'e) \<Rightarrow> error + 'e) \<Rightarrow>
   string \<Rightarrow> string \<Rightarrow> string option \<Rightarrow> components option \<Rightarrow> string list \<Rightarrow>
   string list option \<Rightarrow> error + 'e process" where
  "init load_chemicals get_stoichiometric_coeff symbols parse_expr
        reaction ref_component rate_equation components conserved_for parameters =
     (case load_chemicals components of
        Inl e \<Rightarrow> Inl e
      | Inr cmps \<Rightarrow>
          (case parameters of
             None \<Rightarrow> Inl TypeError
           | Some ps \<Rightarrow>
               (case symbols_dict symbols ps Map.empty of
                  Inl e \<Rightarrow> Inl e
                | Inr pars \<Rightarrow>
                    (case get_stoichiometric_coeff reaction ref_component cmps conserved_for pars of
                       Inl e \<Rightarrow> Inl e
                     | Inr st \<Rightarrow>
                         parse_rate_eq symbols parse_expr
                           \<lparr>u_stoichiometry = st, u_components = cmps,
                            u_ref_component = ref_component, u_conserved_for = conserved_for,
                            u_parameters = pars, u_rate_equation = None,
                            u_conservation_for = None\<rparr>
                           rate_equation))))"

text \<open>
  \<open>append_parameters\<close>: one dictionary store per name, in order. When \<open>symbols\<close>
  raises at a name, the names before it are already stored.
\<close>

fun append_parameters ::
  "(string \<Rightarrow> error + 'e) \<Rightarrow> 'e process \<Rightarrow> string list \<Rightarrow> 'e process outcome" where
  "append_parameters symbols p [] = Returned p"
| "append_parameters symbols p (n # new_pars) =
     (case symbols n of
        Inl e \<Rightarrow> Raised e p
      | Inr v \<Rightarrow> append_parameters symbols (p\<lparr>u_parameters := (u_parameters p)(n \<mapsto> v)\<rparr>) new_pars)"

text \<open>The setter of \<open>conserved_for\<close>.\<close>

definition set_conserved_for :: "'e process \<Rightarrow> string list \<Rightarrow> 'e process" where
  "set_conserved_for p materials = p\<lparr>u_conserved_for := materials\<rparr>"

section \<open>Conversion factors and the conservation check\<close>

text \<open>
  The array built by \<open>get_conversion_factors\<close>: the first row alone is one-dimensional,
  \<open>np.vstack\<close> makes it two-dimensional and raises \<open>ValueError\<close> when the rows differ
  in length.
\<close>

datatype ndarray = Array1d "float64 list" | Array2d "float64 list list"

datatype factors = AsArray ndarray | AsMatrix "float64 list list"

fun vstack :: "ndarray \<Rightarrow> float64 list \<Rightarrow> error + ndarray" where
  "vstack (Array1d r) row =
     (if length r = length row then Inr (Array2d [r, row]) else Inl ValueError)"
| "vstack (Array2d rows) row =
     (if list_all (\<lambda>r. length r = length row) rows then Inr (Array2d (rows @ [row]))
      else Inl ValueError)"

fun stack_rows :: "components \<Rightarrow> ndarray \<Rightarrow> string list \<Rightarrow> error + ndarray" where
  "stack_rows cmps arr [] = Inr arr"
| "stack_rows cmps arr (c # cs) =
     (case i_factor cmps c of
        None \<Rightarrow> Inl AttributeError
      | Some row \<Rightarrow>
          (case vstack arr row of
             Inl e \<Rightarrow> Inl e
           | Inr arr' \<Rightarrow> stack_rows cmps arr' cs))"

text \<open>\<open>Matrix(arr.tolist())\<close>: a flat list becomes a column.\<close>

fun tolist_matrix :: "ndarray \<Rightarrow> float64 list list" where
  "tolist_matrix (Array1d r) = map (\<lambda>x. [x]) r"
| "tolist_matrix (Array2d rows) = rows"

text \<open>
  \<open>get_conversion_factors\<close>. It reads \<open>self._conservation_for\<close>; the result is \<open>None\<close>
  when that is empty.
\<close>

definition get_conversion_factors :: "'e process \<Rightarrow> bool \<Rightarrow> error + factors option" where
  "get_conversion_factors p as_matrix =
     (case u_conservation_for p of
        None \<Rightarrow> Inl AttributeError
      | Some [] \<Rightarrow> Inr None
      | Some (c0 # cs) \<Rightarrow>
          (case i_factor (u_components p) c0 of
             None \<Rightarrow> Inl AttributeError
           | Some r0 \<Rightarrow>
               (case stack_rows (u_components p) (Array1d r0) cs of
                  Inl e \<Rightarrow> Inl e
                | Inr arr \<Rightarrow>
                    Inr (Some (if as_matrix then AsMatrix (tolist_matrix arr) else AsArray arr)))))"

text \<open>The product \<open>ic @ v\<close>: a scalar for a one-dimensional \<open>ic\<close>, a vector otherwise.\<close>

datatype product = Scalar float64 | Vector "float64 list"

definition dot :: "float64 list \<Rightarrow> float64 list \<Rightarrow> float64" where
  "dot r v = foldl (+) 0 (map2 (*) r v)"

fun matmul :: "ndarray \<Rightarrow> float64 list \<Rightarrow> error + product" where
  "matmul (Array1d r) v =
     (if length r = length v then Inr (Scalar (dot r v)) else Inl ValueError)"
| "matmul (Array2d rows) v =
     (if list_all (\<lambda>r. length r = length v) rows then Inr (Vector (map (\<lambda>r. dot r v) rows))
      else Inl ValueError)"

text \<open>\<open>np.isclose(x, 0, atol=tol)\<close>: the relative part vanishes against zero.\<close>

fun isclose_zero :: "real \<Rightarrow> float64 \<Rightarrow> bool" where
  "isclose_zero tol (Finite x) = (\<bar>x\<bar> \<le> tol)"
| "isclose_zero tol PInf = False"
| "isclose_zero tol NInf = False"
| "isclose_zero tol NaN = False"

text \<open>
  The list comprehension over \<open>enumerate(conserved_arr)\<close>: \<open>materials[i]\<close> raises
  \<open>IndexError\<close> past the end of \<open>self._conserved_for\<close>.
\<close>

fun unconserved :: "string list \<Rightarrow> nat \<Rightarrow> float64 list \<Rightarrow> bool list \<Rightarrow>
    error + (string \<times> float64) list" where
  "unconserved materials i ic_dot_v [] = Inr []"
| "unconserved materials i ic_dot_v (conserved # rest) =
     (if conserved then unconserved materials (Suc i) ic_dot_v rest
      else if i < length materials \<and> i < length ic_dot_v then
        (case unconserved materials (Suc i) ic_dot_v rest of
           Inl e \<Rightarrow> Inl e
         | Inr ps \<Rightarrow> Inr ((materials ! i, ic_dot_v ! i) # ps))
      else Inl IndexError)"

text \<open>
  \<open>check_conservation\<close>. It returns nothing and changes nothing, so the result is the
  error or the unit. Iterating over the \<open>numpy.bool_\<close> of the scalar case raises
  \<open>TypeError\<close>; \<open>None @ v\<close> raises \<open>ValueError\<close>.
\<close>

definition check_conservation :: "'e process \<Rightarrow> real \<Rightarrow> error + unit" where
  "check_conservation p tol =
     (case u_stoichiometry p of
        PyList es \<Rightarrow> Inl NonNumericStoichiometryError
      | NdArray v \<Rightarrow>
          (case get_conversion_factors p False of
             Inl e \<Rightarrow> Inl e
           | Inr None \<Rightarrow> Inl ValueError
           | Inr (Some (AsMatrix m)) \<Rightarrow> Inl TypeError
           | Inr (Some (AsArray ic)) \<Rightarrow>
               (case matmul ic v of
                  Inl e \<Rightarrow> Inl e
                | Inr (Scalar d) \<Rightarrow> (if isclose_zero tol d then Inr () else Inl TypeError)
                | Inr (Vector ic_dot_v) \<Rightarrow>
                    (let conserved_arr = map (isclose_zero tol) ic_dot_v
                     in if list_all (\<lambda>c. c) conserved_arr then Inr ()
                        else (case unconserved (u_conserved_for p) 0 ic_dot_v conserved_arr of
                                Inl e \<Rightarrow> Inl e
                              | Inr ps \<Rightarrow> Inl (ConservationViolationError ps))))))"

section \<open>Reversal and the reference component\<close>

text \<open>
  \<open>reverse\<close>: the stoichiometry is replaced first; \<open>-self._rate_equation\<close> then raises
  \<open>AttributeError\<close> when the attribute is unset.
\<close>

definition reverse :: "'e::uminus process \<Rightarrow> 'e process outcome" where
  "reverse p =
     (let p1 = p\<lparr>u_stoichiometry :=
                   (case u_stoichiometry p of
                      NdArray v \<Rightarrow> NdArray (map uminus v)
                    | PyList v \<Rightarrow> PyList (map uminus v))\<rparr>
      in case u_rate_equation p1 of
           None \<Rightarrow> Raised AttributeError p1
         | Some r \<Rightarrow> Returned (p1\<lparr>u_rate_equation := Some (- r)\<rparr>))"

text \<open>
  \<open>_normalize_stoichiometry\<close>: \<open>_index[new_ref]\<close> raises \<open>KeyError\<close>, the subscript
  \<open>IndexError\<close>. The array is divided in place; when the division leaves a flag that
  the error state raises on, \<open>FloatingPointError\<close> is raised with the array already
  divided. The list is replaced by a new one; a division of sympy expressions does not
  raise.
\<close>

definition normalize_stoichiometry ::
  "errstate \<Rightarrow> 'e::{abs,inverse} process \<Rightarrow> string \<Rightarrow> 'e process outcome" where
  "normalize_stoichiometry err p new_ref =
     (case index (u_components p) new_ref of
        None \<Rightarrow> Raised KeyError p
      | Some i \<Rightarrow>
          (case u_stoichiometry p of
             NdArray xs \<Rightarrow>
               (if i < length xs
                then (let factor = \<bar>xs ! i\<bar>;
                          p' = p\<lparr>u_stoichiometry := NdArray (map (\<lambda>v. v / factor) xs)\<rparr>
                      in if true_divide_raises err xs factor then Raised FloatingPointError p'
                         else Returned p')
                else Raised IndexError p)
           | PyList es \<Rightarrow>
               (if i < length es
                then Returned (p\<lparr>u_stoichiometry := PyList (map (\<lambda>v. v / \<bar>es ! i\<bar>) es)\<rparr>)
                else Raised IndexError p)))"

text \<open>
  \<open>_normalize_rate_eq\<close>: the factor is read from the stoichiometry as it is now.
  \<open>sympify\<close> is sympy's conversion of a numpy float, applied when an expression is
  multiplied by one.
\<close>

definition times_rate :: "'e::times process \<Rightarrow> 'e \<Rightarrow> error + 'e process" where
  "times_rate p factor =
     (case u_rate_equation p of
        None \<Rightarrow> Inl AttributeError
      | Some r \<Rightarrow> Inr (p\<lparr>u_rate_equation := Some (r * factor)\<rparr>))"

definition normalize_rate_eq ::
  "(float64 \<Rightarrow> 'e) \<Rightarrow> 'e::times process \<Rightarrow> string \<Rightarrow> error + 'e process" where
  "normalize_rate_eq sympify p new_ref =
     (case index (u_components p) new_ref of
        None \<Rightarrow> Inl KeyError
      | Some i \<Rightarrow>
          (case u_stoichiometry p of
             NdArray xs \<Rightarrow>
               (if i < length xs then times_rate p (sympify (xs ! i)) else Inl IndexError)
           | PyList es \<Rightarrow>
               (if i < length es then times_rate p (es ! i) else Inl IndexError)))"

text \<open>
  The setter of \<open>ref_component\<close>. The argument is \<open>None\<close> or a string; \<open>None\<close> and the
  empty string are falsy. The name is stored before the two normalisations run.
\<close>

definition set_ref_component ::
  "errstate \<Rightarrow> (float64 \<Rightarrow> 'e) \<Rightarrow> 'e::{abs,inverse,times} process \<Rightarrow> string option \<Rightarrow>
   'e process outcome" where
  "set_ref_component err sympify p ref_cmp =
     (case ref_cmp of
        None \<Rightarrow> Returned p
      | Some r \<Rightarrow>
          (if r = [] then Returned p
           else
             (case normalize_stoichiometry err (p\<lparr>u_ref_component := r\<rparr>) r of
                Raised e p2 \<Rightarrow> Raised e p2
              | Returned p2 \<Rightarrow>
                  (case normalize_rate_eq sympify p2 r of
                     Inl e \<Rightarrow> Raised e p2
                   | Inr p3 \<Rightarrow> Returned p3))))"

section \<open>The stoichiometry property\<close>

text \<open>
  The property zips the names with the entries of the vector, builds a dictionary and
  keeps the items with \<open>v != 0\<close>.
\<close>

datatype 'e entry = Numeric float64 | Symbolic 'e

fun entries :: "'e coeffs \<Rightarrow> 'e entry list" where
  "entries (NdArray xs) = map Numeric xs"
| "entries (PyList es) = map Symbolic es"

fun nonzero :: "'e::zero entry \<Rightarrow> bool" where
  "nonzero (Numeric x) = (x \<noteq> 0)"
| "nonzero (Symbolic e) = (e \<noteq> 0)"

definition stoichiometry :: "'e::zero process \<Rightarrow> (string \<rightharpoonup> 'e entry)" where
  "stoichiometry p =
     (let allcmps = py_dict (zip (IDs (u_components p)) (entries (u_stoichiometry p)))
      in (\<lambda>k. case allcmps k of
                 None \<Rightarrow> None
               | Some v \<Rightarrow> (if nonzero v then Some v else None)))"

definition rate_equation :: "'e process \<Rightarrow> error + 'e" where
  "rate_equation p = (case u_rate_equation p of None \<Rightarrow> Inl AttributeError | Some r \<Rightarrow> Inr r)"

section \<open>The expression parser on a missing text\<close>

text \<open>
  sympy's \<open>parse_expr\<close> on the two texts the constructor's default can hand it: it calls
  \<open>s.strip()\<close> first, which raises \<open>AttributeError\<close> on \<open>None\<close>, and evaluating the
  empty text raises \<open>SyntaxError\<close>. \<open>parse\<close> is what it does with every other text.
\<close>

definition sympy_parse_expr ::
  "(string \<Rightarrow> (string \<rightharpoonup> 'e) \<Rightarrow> error + 'e) \<Rightarrow> string option \<Rightarrow> (string \<rightharpoonup> 'e) \<Rightarrow> error + 'e" where
  "sympy_parse_expr parse eq local_dict =
     (case eq of
        None \<Rightarrow> Inl AttributeError
      | Some s \<Rightarrow> (if s = [] then Inl SyntaxError else parse s local_dict))"

section \<open>The normalisation invariant\<close>

text \<open>
  The reference component's coefficient has magnitude one. Not every process has the
  property: the setter establishes it when the new coefficient is a finite non-zero
  number (lemma \<open>set_ref_component_establishes\<close>) and \<open>reverse\<close> keeps it (lemma
  \<open>reverse_keeps_normalized\<close>), but a division by zero leaves \<open>nan\<close> in its place.
\<close>

definition ref_normalized :: "'e::{abs,one} process \<Rightarrow> bool" where
  "ref_normalized p =
     (case index (u_components p) (u_ref_component p) of
        None \<Rightarrow> False
      | Some i \<Rightarrow>
          (case u_stoichiometry p of
             NdArray xs \<Rightarrow> i < length xs \<and> \<bar>xs ! i\<bar> = 1
           | PyList es \<Rightarrow> i < length es \<and> \<bar>es ! i\<bar> = 1))"

section \<open>Example inputs\<close>

text \<open>
  A catalog of three components and a process over it, with a numeric and with a
  symbolic vector. The expressions of these two are numbers (sympy's \<open>Float\<close>), so
  \<open>sympify\<close> is the identity on them.
\<close>

definition ex_components :: components where
  "ex_components =
     \<lparr>IDs = [''S_O2'', ''S_H2O'', ''S_NH4''],
      index = [''S_O2'' \<mapsto> 0, ''S_H2O'' \<mapsto> 1, ''S_NH4'' \<mapsto> 2],
      i_factor = [''COD'' \<mapsto> [Finite 1, Finite 0, Finite 2],
                  ''N'' \<mapsto> [Finite 0, Finite 0, Finite 0]]\<rparr>"

definition ex_process :: "float64 process" where
  "ex_process =
     \<lparr>u_stoichiometry = NdArray [Finite 2, Finite 0, Finite (- 1)],
      u_components = ex_components, u_ref_component = ''S_NH4'',
      u_conserved_for = [''COD'', ''N''], u_parameters = Map.empty,
      u_rate_equation = Some (Finite 3), u_conservation_for = None\<rparr>"

definition ex_symbolic :: "float64 process" where
  "ex_symbolic = ex_process\<lparr>u_stoichiometry := PyList [Finite 2, Finite 0, Finite (- 1)]\<rparr>"

text \<open>
  The error state of the examples raises on a division by zero; no example depends on
  what it does with an invalid operation.
\<close>

definition ex_errstate :: errstate where
  "ex_errstate = \<lparr>raise_divide = True, raise_invalid = False\<rparr>"

text \<open>
  The state that assigning \<open>S_H2O\<close>, whose coefficient is zero, leaves behind on the
  example: the name is stored and the array divided, the rate equation is as before.
\<close>

definition ex_divided :: "float64 process" where
  "ex_divided =
     ex_process\<lparr>u_ref_component := ''S_H2O'', u_stoichiometry := NdArray [PInf, NaN, NInf]\<rparr>"

text \<open>
  Collaborators for a construction: the catalog is the one passed in, the reaction
  parser returns the vector above, a symbol is written as its name (the empty name is
  refused), and a rate text that is a single name parses to the symbol of that name.
\<close>

definition ex_symbols :: "string \<Rightarrow> error + string" where
  "ex_symbols n = (if n = [] then Inl ValueError else Inr n)"

definition ex_load_chemicals :: "components option \<Rightarrow> error + components" where
  "ex_load_chemicals c = (case c of None \<Rightarrow> Inl AttributeError | Some cmps \<Rightarrow> Inr cmps)"

definition ex_parser ::
  "string \<Rightarrow> string \<Rightarrow> components \<Rightarrow> string list \<Rightarrow> (string \<rightharpoonup> string) \<Rightarrow> error + string coeffs" where
  "ex_parser reaction ref cmps cons pars = Inr (NdArray [Finite 2, Finite 0, Finite (- 1)])"

definition ex_parse :: "string \<Rightarrow> (string \<rightharpoonup> string) \<Rightarrow> error + string" where
  "ex_parse s local_dict = (case local_dict s of None \<Rightarrow> Inr s | Some e \<Rightarrow> Inr e)"

definition ex_constructed :: "string process" where
  "ex_constructed =
     \<lparr>u_stoichiometry = NdArray [Finite 2, Finite 0, Finite (- 1)],
      u_components = ex_components, u_ref_component = ''S_NH4'',
      u_conserved_for = [''COD'', ''N''], u_parameters = [''k'' \<mapsto> ''k''],
      u_rate_equation = Some ''k'', u_conservation_for = None\<rparr>"

section \<open>Facts about the arithmetic and the dictionaries\<close>

lemma float64_neg_neg: "- (- (a::float64)) = a"
  by (cases a) simp_all

lemma float64_div_one: "(a::float64) / 1 = a"
  by (cases a) (simp_all add: one_float64_def)

lemma float64_abs_neg: "\<bar>- (a::float64)\<bar> = \<bar>a\<bar>"
  by (cases a) simp_all

lemma float64_sign: "c \<noteq> 0 \<Longrightarrow> Finite c / \<bar>Finite c\<bar> = Finite (sgn c) \<and> \<bar>Finite c / \<bar>Finite c\<bar>\<bar> = 1"
  by (simp add: one_float64_def sgn_if)

lemma float64_zero_over_zero: "(0::float64) / \<bar>0\<bar> = NaN"
  by (simp add: zero_float64_def)

text \<open>A division by a finite non-zero number or by \<open>nan\<close> sets no flag.\<close>

lemma no_flag_finite:
  assumes "y \<noteq> 0"
  shows "\<not> true_divide_raises err xs (Finite y)"
proof -
  have "\<not> fp_divide v (Finite y)" and "\<not> fp_invalid v (Finite y)" for v
    using assms by (cases v; simp)+
  then show ?thesis by (simp add: true_divide_raises_def list_ex_iff)
qed

lemma no_flag_nan: "\<not> true_divide_raises err xs NaN"
proof -
  have "\<not> fp_divide v NaN" and "\<not> fp_invalid v NaN" for v
    by (cases v; simp)+
  then show ?thesis by (simp add: true_divide_raises_def list_ex_iff)
qed

lemma fold_upd_add: "fold (\<lambda>(k, v) m. m(k \<mapsto> v)) kvs m = m ++ map_of (rev kvs)"
proof (induction kvs arbitrary: m)
  case Nil
  show ?case by simp
next
  case (Cons kv kvs)
  obtain k v where kv: "kv = (k, v)" by (cases kv)
  have "m(k \<mapsto> v) ++ map_of (rev kvs) = m ++ ([k \<mapsto> v] ++ map_of (rev kvs))"
    by (simp del: fun_upd_apply add: map_add_assoc [symmetric])
  then show ?case by (simp del: fun_upd_apply add: Cons.IH kv)
qed

lemma py_dict_map_of: "py_dict kvs = map_of (rev kvs)"
  by (simp add: py_dict_def fold_upd_add)

lemma py_dict_zip_SomeD:
  assumes "py_dict (zip ks vs) k = Some v"
  shows "\<exists>i. i < length ks \<and> i < length vs \<and> ks ! i = k \<and> vs ! i = v"
proof -
  from assms have "(k, v) \<in> set (zip ks vs)"
    by (auto simp: py_dict_map_of dest: map_of_SomeD)
  then show ?thesis by (auto simp: in_set_zip)
qed

lemma py_dict_zip_nth:
  assumes "distinct ks" and "i < length ks" and "i < length vs"
  shows "py_dict (zip ks vs) (ks ! i) = Some (vs ! i)"
proof -
  have "distinct (map fst (rev (zip ks vs)))"
    using assms(1) by (simp add: rev_map [symmetric] map_fst_zip_take distinct_take)
  moreover have "(ks ! i, vs ! i) \<in> set (rev (zip ks vs))"
    using assms(2,3) by (auto simp: in_set_zip)
  ultimately show ?thesis
    by (simp only: py_dict_map_of map_of_is_SomeI)
qed

text \<open>
  The dictionary of symbols: when \<open>symbols\<close> accepts every name, each name is mapped to
  its symbol and the other keys are as before; an error is one that \<open>symbols\<close> raised
  for one of the names.
\<close>

lemma symbols_dict_Inr:
  assumes "\<forall>n \<in> set ns. symbols n = Inr (f n)"
  shows "symbols_dict symbols ns m = Inr (\<lambda>k. if k \<in> set ns then Some (f k) else m k)"
  using assms
proof (induction ns arbitrary: m)
  case Nil
  show ?case by simp
next
  case (Cons n ns)
  have "(\<lambda>k. if k \<in> set ns then Some (f k) else (m(n \<mapsto> f n)) k) =
        (\<lambda>k. if k \<in> set (n # ns) then Some (f k) else m k)"
    by (rule ext) simp
  with Cons show ?case by simp
qed

lemma symbols_dict_Inl:
  "symbols_dict symbols ns m = Inl e \<Longrightarrow> \<exists>n \<in> set ns. symbols n = Inl e"
  by (induction ns arbitrary: m) (auto split: sum.splits)

lemma append_parameters_Returned:
  assumes "\<forall>n \<in> set ns. symbols n = Inr (f n)"
  shows "append_parameters symbols p ns =
           Returned (p\<lparr>u_parameters := (\<lambda>k. if k \<in> set ns then Some (f k) else u_parameters p k)\<rparr>)"
  using assms
proof (induction ns arbitrary: p)
  case Nil
  show ?case by simp
next
  case (Cons n ns)
  let ?p = "p\<lparr>u_parameters := (u_parameters p)(n \<mapsto> f n)\<rparr>"
  have step: "append_parameters symbols p (n # ns) = append_parameters symbols ?p ns"
    using Cons.prems by simp
  have rest: "append_parameters symbols ?p ns =
      Returned (?p\<lparr>u_parameters := (\<lambda>k. if k \<in> set ns then Some (f k) else u_parameters ?p k)\<rparr>)"
    using Cons.prems by (intro Cons.IH) simp
  have "(\<lambda>k. if k \<in> set ns then Some (f k) else u_parameters ?p k) =
        (\<lambda>k. if k \<in> set (n # ns) then Some (f k) else u_parameters p k)"
    by (rule ext) simp
  then have "?p\<lparr>u_parameters := (\<lambda>k. if k \<in> set ns then Some (f k) else u_parameters ?p k)\<rparr> =
        p\<lparr>u_parameters := (\<lambda>k. if k \<in> set (n # ns) then Some (f k) else u_parameters p k)\<rparr>"
    by (simp only: process.update_convs) simp
  with step rest show ?case by (simp only:)
qed

lemma append_parameters_Raised:
  "raised (append_parameters symbols p ns) = Some e \<Longrightarrow> \<exists>n \<in> set ns. symbols n = Inl e"
  by (induction ns arbitrary: p) (auto split: sum.splits)

section \<open>What a construction leaves\<close>

text \<open>
  No statement of the class assigns \<open>_conservation_for\<close>: a constructed object has
  it unset, and no method sets it later. The rate equation of a constructed object is set.
\<close>

lemma init_Inr_D:
  assumes "init lc gs sy pe reaction ref eq comps cons ps = Inr p"
  shows "u_conservation_for p = None \<and> u_rate_equation p \<noteq> None \<and> u_ref_component p = ref \<and> u_conserved_for p = cons"
  using assms
  by (auto simp: init_def parse_rate_eq_def split: sum.splits option.splits)

lemma conservation_for_never_assigned:
  "u_conservation_for (state_of (reverse p)) = u_conservation_for p"
  "u_conservation_for (state_of (set_ref_component err sympify q ref_cmp)) = u_conservation_for q"
  "u_conservation_for (set_conserved_for p' materials) = u_conservation_for p'"
  by (auto simp: reverse_def set_ref_component_def normalize_stoichiometry_def
      normalize_rate_eq_def times_rate_def set_conserved_for_def Let_def
      split: option.splits coeffs.splits if_splits)

lemma conservation_for_append_parameters:
  "u_conservation_for (state_of (append_parameters symbols p new_pars)) = u_conservation_for p"
  by (induction new_pars arbitrary: p) (auto split: sum.splits)

lemma ex_init:
  "init ex_load_chemicals ex_parser ex_symbols (sympy_parse_expr ex_parse)
     ''S_NH4 -> 2 S_O2'' ''S_NH4'' (Some ''k'') (Some ex_components) [''COD'', ''N''] (Some [''k''])
   = Inr ex_constructed"
  by (simp add: init_def parse_rate_eq_def ex_load_chemicals_def ex_parser_def ex_parse_def
      ex_symbols_def sympy_parse_expr_def ex_constructed_def ex_components_def)

section \<open>The setter of the reference component, case by case\<close>

lemma set_ref_component_NdArray:
  assumes "s \<noteq> []" and "index (u_components p) s = Some i"
    and "u_stoichiometry p = NdArray xs" and "i < length xs"
  shows "set_ref_component err sympify p (Some s) =
           (if true_divide_raises err xs \<bar>xs ! i\<bar>
            then Raised FloatingPointError
                   (p\<lparr>u_ref_component := s,
                      u_stoichiometry := NdArray (map (\<lambda>v. v / \<bar>xs ! i\<bar>) xs)\<rparr>)
            else (case u_rate_equation p of
                    None \<Rightarrow> Raised AttributeError
                              (p\<lparr>u_ref_component := s,
                                 u_stoichiometry := NdArray (map (\<lambda>v. v / \<bar>xs ! i\<bar>) xs)\<rparr>)
                  | Some r \<Rightarrow> Returned
                              (p\<lparr>u_ref_component := s,
                                 u_stoichiometry := NdArray (map (\<lambda>v. v / \<bar>xs ! i\<bar>) xs),
                                 u_rate_equation := Some (r * sympify (xs ! i / \<bar>xs ! i\<bar>))\<rparr>)))"
  using assms
  by (simp add: set_ref_component_def normalize_stoichiometry_def normalize_rate_eq_def
      times_rate_def Let_def split: option.splits)

lemma set_ref_component_PyList:
  assumes "s \<noteq> []" and "index (u_components p) s = Some i"
    and "u_stoichiometry p = PyList es" and "i < length es"
  shows "set_ref_component err sympify p (Some s) =
           (case u_rate_equation p of
              None \<Rightarrow> Raised AttributeError
                        (p\<lparr>u_ref_component := s,
                           u_stoichiometry := PyList (map (\<lambda>v. v / \<bar>es ! i\<bar>) es)\<rparr>)
            | Some r \<Rightarrow> Returned
                        (p\<lparr>u_ref_component := s,
                           u_stoichiometry := PyList (map (\<lambda>v. v / \<bar>es ! i\<bar>) es),
                           u_rate_equation := Some (r * (es ! i / \<bar>es ! i\<bar>))\<rparr>))"
  using assms
  by (simp add: set_ref_component_def normalize_stoichiometry_def normalize_rate_eq_def
      times_rate_def Let_def split: option.splits)

lemma set_ref_component_failed:
  assumes "s \<noteq> []"
    and "index (u_components p) s = None \<or>
         (\<exists>i. index (u_components p) s = Some i \<and>
              (case u_stoichiometry p of NdArray xs \<Rightarrow> length xs \<le> i | PyList es \<Rightarrow> length es \<le> i))"
  shows "set_ref_component err sympify p (Some s) =
           Raised (if index (u_components p) s = None then KeyError else IndexError)
                  (p\<lparr>u_ref_component := s\<rparr>)"
  using assms
  by (auto simp: set_ref_component_def normalize_stoichiometry_def Let_def
      split: option.splits coeffs.splits)

lemma set_ref_component_never_zero_error:
  "raised (set_ref_component err sympify p ref_cmp) \<noteq> Some ZeroReferenceCoefficientError"
  by (auto simp: set_ref_component_def normalize_stoichiometry_def normalize_rate_eq_def
      times_rate_def Let_def split: option.splits coeffs.splits if_splits)

lemma set_ref_component_name:
  "s \<noteq> [] \<Longrightarrow> u_ref_component (state_of (set_ref_component err sympify p (Some s))) = s"
  by (auto simp: set_ref_component_def normalize_stoichiometry_def normalize_rate_eq_def
      times_rate_def Let_def split: option.splits coeffs.splits if_splits)

lemma set_ref_component_establishes:
  assumes "s \<noteq> []" and "index (u_components p) s = Some i"
    and "u_stoichiometry p = NdArray xs" and "i < length xs" and "xs ! i = Finite c" and "c \<noteq> 0"
  shows "ref_normalized (state_of (set_ref_component err sympify p (Some s)))"
  using assms float64_sign [of c] no_flag_finite [of "\<bar>c\<bar>" err xs]
  by (simp add: set_ref_component_NdArray ref_normalized_def split: option.splits)

lemma reverse_keeps_normalized:
  fixes p :: "'e::{abs,one,uminus} process"
  assumes "ref_normalized p" and "\<forall>e::'e. \<bar>- e\<bar> = \<bar>e\<bar>"
  shows "ref_normalized (state_of (reverse p))"
  using assms
  by (auto simp: ref_normalized_def reverse_def Let_def float64_abs_neg
      split: option.splits coeffs.splits)

lemma ex_distinct: "distinct (IDs (u_components ex_process))"
  by (simp add: ex_process_def ex_components_def)

section \<open>The claims\<close>

subsection \<open>C1: what a new reference component does to the coefficients and the rate\<close>

text \<open>
  C1 says that assigning \<open>ref_component = s\<close>, where \<open>s\<close> has the non-zero
  coefficient \<open>c\<close>, divides every coefficient by \<open>|c|\<close> and multiplies the rate
  equation by the unnormalised \<open>c\<close>, captured before the division. The code captures
  nothing: \<open>_normalize_rate_eq\<close> runs after \<open>_normalize_stoichiometry\<close> and reads the
  coefficient from the vector already divided. For a finite non-zero number \<open>c\<close> the
  setter returns, the coefficient of \<open>s\<close> is then the sign of \<open>c\<close>, and the rate
  equation is multiplied by that sign instead of by \<open>c\<close>; for a list of expressions the
  factor is \<open>c / |c|\<close>.
\<close>

theorem ref_component_rate_factor:
  fixes p :: "'e::{abs,inverse,times} process"
  assumes "s \<noteq> []" and "index (u_components p) s = Some i" and "u_rate_equation p = Some r"
  shows
   "(u_stoichiometry p = NdArray xs \<and> i < length xs \<and> xs ! i = Finite c \<and> c \<noteq> 0 \<longrightarrow>
       set_ref_component err sympify p (Some s) =
         Returned (p\<lparr>u_ref_component := s,
                     u_stoichiometry := NdArray (map (\<lambda>v. v / Finite \<bar>c\<bar>) xs),
                     u_rate_equation := Some (r * sympify (Finite (sgn c)))\<rparr>) \<and>
       map (\<lambda>v. v / Finite \<bar>c\<bar>) xs ! i = Finite (sgn c)) \<and>
    (u_stoichiometry p = PyList es \<and> i < length es \<longrightarrow>
       set_ref_component err sympify p (Some s) =
         Returned (p\<lparr>u_ref_component := s,
                     u_stoichiometry := PyList (map (\<lambda>v. v / \<bar>es ! i\<bar>) es),
                     u_rate_equation := Some (r * (es ! i / \<bar>es ! i\<bar>))\<rparr>))"
proof (intro conjI impI)
  assume h: "u_stoichiometry p = NdArray xs \<and> i < length xs \<and> xs ! i = Finite c \<and> c \<noteq> 0"
  then have "\<not> true_divide_raises err xs \<bar>xs ! i\<bar>"
    using no_flag_finite [of "\<bar>c\<bar>" err xs] by simp
  with h assms float64_sign [of c]
  show "set_ref_component err sympify p (Some s) =
         Returned (p\<lparr>u_ref_component := s,
                     u_stoichiometry := NdArray (map (\<lambda>v. v / Finite \<bar>c\<bar>) xs),
                     u_rate_equation := Some (r * sympify (Finite (sgn c)))\<rparr>)"
    by (simp add: set_ref_component_NdArray)
  from h float64_sign [of c] show "map (\<lambda>v. v / Finite \<bar>c\<bar>) xs ! i = Finite (sgn c)"
    by simp
next
  assume "u_stoichiometry p = PyList es \<and> i < length es"
  then show "set_ref_component err sympify p (Some s) =
         Returned (p\<lparr>u_ref_component := s,
                     u_stoichiometry := PyList (map (\<lambda>v. v / \<bar>es ! i\<bar>) es),
                     u_rate_equation := Some (r * (es ! i / \<bar>es ! i\<bar>))\<rparr>)"
    using assms by (simp add: set_ref_component_PyList)
qed

text \<open>
  On the example the coefficient of \<open>S_O2\<close> is \<open>2\<close> and the rate \<open>3\<close> stays \<open>3\<close>, where
  C1 has \<open>3 * 2\<close>; assigning \<open>S_NH4\<close>, the reference component already, whose coefficient
  is \<open>-1\<close>, turns the rate into \<open>-3\<close>.
\<close>

theorem ref_component_rate_factor_witness:
  "index (u_components ex_process) ''S_O2'' = Some 0 \<and>
   u_stoichiometry ex_process = NdArray [Finite 2, Finite 0, Finite (- 1)] \<and>
   u_rate_equation ex_process = Some (Finite 3) \<and>
   set_ref_component ex_errstate (\<lambda>x. x) ex_process (Some ''S_O2'') =
     Returned (ex_process\<lparr>u_ref_component := ''S_O2'',
                          u_stoichiometry := NdArray [Finite 1, Finite 0, Finite (- 1 / 2)],
                          u_rate_equation := Some (Finite 3)\<rparr>) \<and>
   Some (Finite 3) \<noteq> Some (Finite 3 * Finite 2) \<and>
   set_ref_component ex_errstate (\<lambda>x. x) ex_process (Some ''S_NH4'') =
     Returned (ex_process\<lparr>u_ref_component := ''S_NH4'',
                          u_stoichiometry := NdArray [Finite 2, Finite 0, Finite (- 1)],
                          u_rate_equation := Some (Finite (- 3))\<rparr>) \<and>
   set_ref_component ex_errstate (\<lambda>x. x) ex_symbolic (Some ''S_O2'') =
     Returned (ex_symbolic\<lparr>u_ref_component := ''S_O2'',
                          u_stoichiometry := PyList [Finite 1, Finite 0, Finite (- 1 / 2)],
                          u_rate_equation := Some (Finite 3)\<rparr>)"
proof -
  have a: "''S_O2'' \<noteq> []" and a': "''S_NH4'' \<noteq> []" by simp_all
  have b: "index (u_components ex_process) ''S_O2'' = Some 0"
    and b': "index (u_components ex_process) ''S_NH4'' = Some 2"
    and b'': "index (u_components ex_symbolic) ''S_O2'' = Some 0"
    by (simp_all add: ex_symbolic_def ex_process_def ex_components_def)
  have c: "u_rate_equation ex_process = Some (Finite 3)"
    and c'': "u_rate_equation ex_symbolic = Some (Finite 3)"
    by (simp_all add: ex_symbolic_def ex_process_def)
  have d: "u_stoichiometry ex_process = NdArray [Finite 2, Finite 0, Finite (- 1)]"
    by (simp add: ex_process_def)
  note n = ref_component_rate_factor [OF a b c,
      where xs = "[Finite 2, Finite 0, Finite (- 1)]" and c = 2 and sympify = "\<lambda>x. x"
        and err = ex_errstate]
  note m = ref_component_rate_factor [OF a' b' c,
      where xs = "[Finite 2, Finite 0, Finite (- 1)]" and c = "- 1" and sympify = "\<lambda>x. x"
        and err = ex_errstate]
  note s = ref_component_rate_factor [OF a b'' c'',
      where es = "[Finite 2, Finite 0, Finite (- 1)]" and sympify = "\<lambda>x. x"
        and err = ex_errstate]
  from n have "set_ref_component ex_errstate (\<lambda>x. x) ex_process (Some ''S_O2'') =
     Returned (ex_process\<lparr>u_ref_component := ''S_O2'',
                          u_stoichiometry := NdArray [Finite 1, Finite 0, Finite (- 1 / 2)],
                          u_rate_equation := Some (Finite 3)\<rparr>)"
    by (simp add: ex_process_def)
  moreover from m have "set_ref_component ex_errstate (\<lambda>x. x) ex_process (Some ''S_NH4'') =
     Returned (ex_process\<lparr>u_ref_component := ''S_NH4'',
                          u_stoichiometry := NdArray [Finite 2, Finite 0, Finite (- 1)],
                          u_rate_equation := Some (Finite (- 3))\<rparr>)"
    by (simp add: ex_process_def)
  moreover from s have "set_ref_component ex_errstate (\<lambda>x. x) ex_symbolic (Some ''S_O2'') =
     Returned (ex_symbolic\<lparr>u_ref_component := ''S_O2'',
                          u_stoichiometry := PyList [Finite 1, Finite 0, Finite (- 1 / 2)],
                          u_rate_equation := Some (Finite 3)\<rparr>)"
    by (simp add: ex_symbolic_def ex_process_def)
  ultimately show ?thesis using b c d by simp
qed

subsection \<open>C2: the conversion factors\<close>

text \<open>
  C2 says that \<open>get_conversion_factors\<close> returns the stacked conversion-factor rows,
  or \<open>None\<close> when there is no conserved quantity. The method reads
  \<open>self._conservation_for\<close>, while the constructor and the property write
  \<open>self._conserved_for\<close>: on every constructed object the read raises
  \<open>AttributeError\<close>, whatever the conserved quantities are.
\<close>

theorem get_conversion_factors_unset_attribute:
  assumes "init lc gs sy pe reaction ref eq comps cons ps = Inr p"
  shows "get_conversion_factors p as_matrix = Inl AttributeError"
  using init_Inr_D [OF assms] by (simp add: get_conversion_factors_def)

theorem get_conversion_factors_unset_attribute_witness:
  "init ex_load_chemicals ex_parser ex_symbols (sympy_parse_expr ex_parse)
     ''S_NH4 -> 2 S_O2'' ''S_NH4'' (Some ''k'') (Some ex_components) [''COD'', ''N''] (Some [''k''])
   = Inr ex_constructed \<and>
   u_conserved_for ex_constructed = [''COD'', ''N''] \<and>
   get_conversion_factors ex_constructed False = Inl AttributeError"
  using ex_init get_conversion_factors_unset_attribute [OF ex_init, of False]
  by (simp add: ex_constructed_def)

text \<open>
  With the attribute set by hand the body does stack the rows; a single quantity gives
  a one-dimensional array.
\<close>

lemma get_conversion_factors_if_attribute_set:
  "get_conversion_factors (ex_constructed\<lparr>u_conservation_for := Some [''COD'', ''N'']\<rparr>) False =
     Inr (Some (AsArray (Array2d [[Finite 1, Finite 0, Finite 2], [Finite 0, Finite 0, Finite 0]]))) \<and>
   get_conversion_factors (ex_constructed\<lparr>u_conservation_for := Some [''COD'']\<rparr>) False =
     Inr (Some (AsArray (Array1d [Finite 1, Finite 0, Finite 2]))) \<and>
   get_conversion_factors (ex_constructed\<lparr>u_conservation_for := Some []\<rparr>) False = Inr None"
  by (simp add: get_conversion_factors_def ex_constructed_def ex_components_def)

subsection \<open>C3: the conservation check\<close>

text \<open>
  C3 says that \<open>check_conservation\<close> rejects a symbolic vector and, on a numeric
  one, raises exactly when some quantity is out of balance. The first half holds. On a
  numeric vector the call of \<open>get_conversion_factors\<close> raises \<open>AttributeError\<close>
  before any product is computed, balanced or not (the same defect as in C2).
\<close>

theorem check_conservation_unset_attribute:
  assumes "init lc gs sy pe reaction ref eq comps cons ps = Inr p"
  shows "check_conservation p tol =
           (case u_stoichiometry p of
              NdArray v \<Rightarrow> Inl AttributeError
            | PyList es \<Rightarrow> Inl NonNumericStoichiometryError)"
  using init_Inr_D [OF assms]
  by (simp add: check_conservation_def get_conversion_factors_def split: coeffs.splits)

theorem check_conservation_unset_attribute_witness:
  "init ex_load_chemicals ex_parser ex_symbols (sympy_parse_expr ex_parse)
     ''S_NH4 -> 2 S_O2'' ''S_NH4'' (Some ''k'') (Some ex_components) [''COD'', ''N''] (Some [''k''])
   = Inr ex_constructed \<and>
   check_conservation ex_constructed (1 / 10 ^ 8) = Inl AttributeError"
  using ex_init check_conservation_unset_attribute [OF ex_init, of "1 / 10 ^ 8"]
  by (simp add: ex_constructed_def)

text \<open>The example is balanced: with the attribute set by hand the check passes.\<close>

lemma check_conservation_if_attribute_set:
  "check_conservation (ex_constructed\<lparr>u_conservation_for := Some [''COD'', ''N'']\<rparr>) (1 / 10 ^ 8) = Inr ()"
  by (simp add: check_conservation_def get_conversion_factors_def ex_constructed_def
      ex_components_def dot_def zero_float64_def)

subsection \<open>C4: a reference component with coefficient zero\<close>

text \<open>
  C4 says that assigning a species whose coefficient is zero raises
  \<open>ZeroReferenceCoefficientError\<close> and leaves the state unchanged. The source has no
  such check. On the example the coefficient of \<open>S_H2O\<close> is zero: the name is stored,
  the array is divided in place into \<open>inf\<close>, \<open>nan\<close>, \<open>-inf\<close>, and what is raised is
  numpy's \<open>FloatingPointError\<close>.
\<close>

theorem zero_reference_counterexample:
  "u_stoichiometry ex_process = NdArray [Finite 2, Finite 0, Finite (- 1)] \<and>
   index (u_components ex_process) ''S_H2O'' = Some 1 \<and>
   u_ref_component ex_process = ''S_NH4'' \<and>
   set_ref_component ex_errstate (\<lambda>x. x) ex_process (Some ''S_H2O'') =
     Raised FloatingPointError
       (ex_process\<lparr>u_ref_component := ''S_H2O'',
                   u_stoichiometry := NdArray [PInf, NaN, NInf]\<rparr>) \<and>
   raised (set_ref_component ex_errstate (\<lambda>x. x) ex_process (Some ''S_H2O'')) \<noteq>
     Some ZeroReferenceCoefficientError \<and>
   state_of (set_ref_component ex_errstate (\<lambda>x. x) ex_process (Some ''S_H2O'')) \<noteq> ex_process"
proof -
  have r: "set_ref_component ex_errstate (\<lambda>x. x) ex_process (Some ''S_H2O'') =
     Raised FloatingPointError
       (ex_process\<lparr>u_ref_component := ''S_H2O'',
                   u_stoichiometry := NdArray [PInf, NaN, NInf]\<rparr>)"
    by (simp add: set_ref_component_def normalize_stoichiometry_def true_divide_raises_def
        ex_errstate_def Let_def ex_process_def ex_components_def)
  have "u_ref_component (ex_process\<lparr>u_ref_component := ''S_H2O'',
                          u_stoichiometry := NdArray [PInf, NaN, NInf]\<rparr>) \<noteq>
        u_ref_component ex_process"
    by (simp add: ex_process_def)
  then have "ex_process\<lparr>u_ref_component := ''S_H2O'',
                          u_stoichiometry := NdArray [PInf, NaN, NInf]\<rparr> \<noteq> ex_process"
    by metis
  with r show ?thesis by (simp add: ex_process_def ex_components_def)
qed

text \<open>
  C4, amended: assigning a non-empty name whose coefficient is zero does not raise
  \<open>ZeroReferenceCoefficientError\<close> and does not leave the state as it was: the name is
  stored, and when the species is in the catalog at a position inside the vector, every
  coefficient is divided by zero, which for an array of numbers changes the vector.
\<close>

theorem zero_reference_not_rejected:
  fixes p :: "'e::{abs,inverse,times,zero} process"
  assumes "s \<noteq> []"
  shows
   "raised (set_ref_component err sympify p (Some s)) \<noteq> Some ZeroReferenceCoefficientError \<and>
    u_ref_component (state_of (set_ref_component err sympify p (Some s))) = s \<and>
    (index (u_components p) s = Some i \<and> u_stoichiometry p = NdArray xs \<and>
     i < length xs \<and> xs ! i = 0 \<longrightarrow>
       u_stoichiometry (state_of (set_ref_component err sympify p (Some s))) =
         NdArray (map (\<lambda>v. v / Finite 0) xs) \<and>
       u_stoichiometry (state_of (set_ref_component err sympify p (Some s))) \<noteq>
         u_stoichiometry p) \<and>
    (index (u_components p) s = Some i \<and> u_stoichiometry p = PyList es \<and>
     i < length es \<and> es ! i = 0 \<longrightarrow>
       u_stoichiometry (state_of (set_ref_component err sympify p (Some s))) =
         PyList (map (\<lambda>v. v / \<bar>0\<bar>) es))"
proof (intro conjI impI)
  show "raised (set_ref_component err sympify p (Some s)) \<noteq> Some ZeroReferenceCoefficientError"
    by (rule set_ref_component_never_zero_error)
next
  show "u_ref_component (state_of (set_ref_component err sympify p (Some s))) = s"
    using assms by (rule set_ref_component_name)
next
  assume h: "index (u_components p) s = Some i \<and> u_stoichiometry p = NdArray xs \<and>
     i < length xs \<and> xs ! i = 0"
  then show v: "u_stoichiometry (state_of (set_ref_component err sympify p (Some s))) =
         NdArray (map (\<lambda>v. v / Finite 0) xs)"
    using assms by (simp add: set_ref_component_NdArray zero_float64_def split: option.splits)
  from h have "map (\<lambda>v. v / Finite 0) xs ! i = NaN" and "xs ! i \<noteq> NaN"
    by (simp_all add: zero_float64_def)
  then have "map (\<lambda>v. v / Finite 0) xs \<noteq> xs" by metis
  with v h show "u_stoichiometry (state_of (set_ref_component err sympify p (Some s))) \<noteq>
         u_stoichiometry p"
    by simp
next
  assume "index (u_components p) s = Some i \<and> u_stoichiometry p = PyList es \<and>
     i < length es \<and> es ! i = 0"
  then show "u_stoichiometry (state_of (set_ref_component err sympify p (Some s))) =
         PyList (map (\<lambda>v. v / \<bar>0\<bar>) es)"
    using assms by (simp add: set_ref_component_PyList split: option.splits)
qed

theorem zero_reference_not_rejected_witness:
  "index (u_components ex_process) ''S_H2O'' = Some 1 \<and>
   u_stoichiometry ex_process = NdArray [Finite 2, Finite 0, Finite (- 1)] \<and>
   raised (set_ref_component ex_errstate (\<lambda>x. x) ex_process (Some ''S_H2O'')) \<noteq>
     Some ZeroReferenceCoefficientError \<and>
   u_ref_component (state_of (set_ref_component ex_errstate (\<lambda>x. x) ex_process (Some ''S_H2O''))) =
     ''S_H2O'' \<and>
   u_stoichiometry (state_of (set_ref_component ex_errstate (\<lambda>x. x) ex_process (Some ''S_H2O''))) =
     NdArray [PInf, NaN, NInf] \<and>
   u_stoichiometry (state_of (set_ref_component ex_errstate (\<lambda>x. x) ex_symbolic (Some ''S_H2O''))) =
     PyList [PInf, NaN, NInf]"
proof -
  have a: "''S_H2O'' \<noteq> []" by simp
  have b: "index (u_components ex_process) ''S_H2O'' = Some 1"
    and b': "index (u_components ex_symbolic) ''S_H2O'' = Some 1"
    by (simp_all add: ex_symbolic_def ex_process_def ex_components_def)
  have d: "u_stoichiometry ex_process = NdArray [Finite 2, Finite 0, Finite (- 1)]"
    and d': "u_stoichiometry ex_symbolic = PyList [Finite 2, Finite 0, Finite (- 1)]"
    by (simp_all add: ex_symbolic_def ex_process_def)
  note n = zero_reference_not_rejected [OF a, where p = ex_process and sympify = "\<lambda>x. x"
      and err = ex_errstate and i = 1 and xs = "[Finite 2, Finite 0, Finite (- 1)]"]
  note s = zero_reference_not_rejected [OF a, where p = ex_symbolic and sympify = "\<lambda>x. x"
      and err = ex_errstate and i = 1 and es = "[Finite 2, Finite 0, Finite (- 1)]"]
  from n b d have "raised (set_ref_component ex_errstate (\<lambda>x. x) ex_process (Some ''S_H2O'')) \<noteq>
     Some ZeroReferenceCoefficientError"
    and "u_ref_component (state_of (set_ref_component ex_errstate (\<lambda>x. x) ex_process (Some ''S_H2O''))) =
     ''S_H2O''"
    and "u_stoichiometry (state_of (set_ref_component ex_errstate (\<lambda>x. x) ex_process (Some ''S_H2O''))) =
     NdArray [PInf, NaN, NInf]"
    by (simp_all add: zero_float64_def)
  moreover from s b' d' have "u_stoichiometry (state_of (set_ref_component ex_errstate (\<lambda>x. x) ex_symbolic (Some ''S_H2O''))) =
     PyList [PInf, NaN, NInf]"
    by (simp add: zero_float64_def)
  ultimately show ?thesis using b d by simp
qed

subsection \<open>C5: reversing twice\<close>

text \<open>
  C5: on a process whose rate equation is set, \<open>reverse\<close> twice returns both times
  and restores the stoichiometry and the rate equation. Negation of a float is exact;
  for the expressions the property rests on sympy's negation being an involution, which
  is the hypothesis on \<open>'e\<close>.
\<close>

theorem reverse_twice:
  fixes p :: "'e::uminus process"
  assumes "u_rate_equation p = Some r" and "\<forall>e::'e. - (- e) = e"
  shows "raised (reverse p) = None \<and> reverse (state_of (reverse p)) = Returned p"
proof -
  have m: "map uminus (map uminus (es::'e list)) = es" for es
    using assms(2) by (simp add: map_idI)
  have n: "map uminus (map uminus (xs::float64 list)) = xs" for xs
    by (simp add: float64_neg_neg map_idI)
  show ?thesis
    using assms m n by (cases "u_stoichiometry p") (simp_all add: reverse_def)
qed

theorem reverse_twice_witness:
  "u_rate_equation ex_process = Some (Finite 3) \<and>
   reverse ex_process =
     Returned (ex_process\<lparr>u_stoichiometry := NdArray [Finite (- 2), Finite 0, Finite 1],
                          u_rate_equation := Some (Finite (- 3))\<rparr>) \<and>
   reverse (state_of (reverse ex_process)) = Returned ex_process"
proof -
  have r: "u_rate_equation ex_process = Some (Finite 3)" by (simp add: ex_process_def)
  have l: "\<forall>e::float64. - (- e) = e" by (simp add: float64_neg_neg)
  have "reverse ex_process =
     Returned (ex_process\<lparr>u_stoichiometry := NdArray [Finite (- 2), Finite 0, Finite 1],
                          u_rate_equation := Some (Finite (- 3))\<rparr>)"
    by (simp add: reverse_def ex_process_def)
  with r reverse_twice [OF r l] show ?thesis by simp
qed

subsection \<open>C6: colliding parameter names\<close>

text \<open>
  C6 says that a parameter name that collides with a component or an earlier parameter
  makes the constructor and \<open>append_parameters\<close> fail with
  \<open>DuplicateParameterError\<close>. Neither looks at the names: both store into a
  dictionary. On the example, \<open>S_O2\<close> is a component and \<open>k\<close> a parameter, and both
  calls succeed.
\<close>

theorem duplicate_parameter_counterexample:
  "''S_O2'' \<in> set (IDs (u_components ex_constructed)) \<and>
   u_parameters ex_constructed ''k'' = Some ''k'' \<and>
   raised (append_parameters ex_symbols ex_constructed [''S_O2'']) = None \<and>
   raised (append_parameters ex_symbols ex_constructed [''k'']) = None \<and>
   \<not> isl (init ex_load_chemicals ex_parser ex_symbols (sympy_parse_expr ex_parse)
          ''S_NH4 -> 2 S_O2'' ''S_NH4'' (Some ''k'') (Some ex_components) [''COD'', ''N'']
          (Some [''S_O2'', ''k'', ''k'']))"
  by (simp add: init_def parse_rate_eq_def ex_load_chemicals_def ex_symbols_def
      ex_parser_def ex_parse_def sympy_parse_expr_def ex_constructed_def ex_components_def
      map_add_def)

text \<open>
  C6, amended: neither operation compares a name with the components or with the
  parameters already there. What \<open>append_parameters\<close> raises is what \<open>symbols\<close> raised
  for one of the given names; when \<open>symbols\<close> returns a symbol for each of them, it
  returns, with every given name mapped to its symbol (an entry of that name is
  overwritten) and the other parameters as before. A construction for which \<open>symbols\<close>
  and the other collaborators succeed returns an object whose parameters are the given
  names, each mapped to its symbol.
\<close>

theorem parameter_names_unchecked:
  "(raised (append_parameters symbols p names) = Some e \<longrightarrow>
      (\<exists>n \<in> set names. symbols n = Inl e)) \<and>
   ((\<forall>n \<in> set names. symbols n = Inr (symbol_of n)) \<longrightarrow>
      raised (append_parameters symbols p names) = None \<and>
      (\<forall>k. u_parameters (state_of (append_parameters symbols p names)) k =
            (if k \<in> set names then Some (symbol_of k) else u_parameters p k))) \<and>
   ((\<forall>n \<in> set names. symbols n = Inr (symbol_of n)) \<and>
    load_chemicals components = Inr cmps \<and>
    get_stoichiometric_coeff reaction ref cmps cons
      (\<lambda>k. if k \<in> set names then Some (symbol_of k) else None) = Inr st \<and>
    symbols_dict symbols (IDs cmps) Map.empty = Inr tab \<and>
    parse_expr eq (tab ++ (\<lambda>k. if k \<in> set names then Some (symbol_of k) else None)) = Inr r \<longrightarrow>
    (\<exists>q. init load_chemicals get_stoichiometric_coeff symbols parse_expr
            reaction ref eq components cons (Some names) = Inr q \<and>
          (\<forall>k. u_parameters q k = (if k \<in> set names then Some (symbol_of k) else None))))"
proof (intro conjI impI)
  assume "raised (append_parameters symbols p names) = Some e"
  then show "\<exists>n \<in> set names. symbols n = Inl e"
    by (rule append_parameters_Raised)
next
  assume "\<forall>n \<in> set names. symbols n = Inr (symbol_of n)"
  then have "append_parameters symbols p names =
      Returned (p\<lparr>u_parameters := (\<lambda>k. if k \<in> set names then Some (symbol_of k) else u_parameters p k)\<rparr>)"
    by (rule append_parameters_Returned)
  then show "raised (append_parameters symbols p names) = None"
    and "\<forall>k. u_parameters (state_of (append_parameters symbols p names)) k =
            (if k \<in> set names then Some (symbol_of k) else u_parameters p k)"
    by simp_all
next
  assume h: "(\<forall>n \<in> set names. symbols n = Inr (symbol_of n)) \<and>
    load_chemicals components = Inr cmps \<and>
    get_stoichiometric_coeff reaction ref cmps cons
      (\<lambda>k. if k \<in> set names then Some (symbol_of k) else None) = Inr st \<and>
    symbols_dict symbols (IDs cmps) Map.empty = Inr tab \<and>
    parse_expr eq (tab ++ (\<lambda>k. if k \<in> set names then Some (symbol_of k) else None)) = Inr r"
  then have "symbols_dict symbols names Map.empty =
      Inr (\<lambda>k. if k \<in> set names then Some (symbol_of k) else None)"
    by (simp add: symbols_dict_Inr)
  with h show "\<exists>q. init load_chemicals get_stoichiometric_coeff symbols parse_expr
            reaction ref eq components cons (Some names) = Inr q \<and>
          (\<forall>k. u_parameters q k = (if k \<in> set names then Some (symbol_of k) else None))"
    by (simp add: init_def parse_rate_eq_def)
qed

theorem parameter_names_unchecked_witness:
  "''S_O2'' \<in> set (IDs (u_components ex_constructed)) \<and>
   u_parameters ex_constructed ''k'' = Some ''k'' \<and>
   raised (append_parameters ex_symbols ex_constructed [''S_O2'', ''k'']) = None \<and>
   u_parameters (state_of (append_parameters ex_symbols ex_constructed [''S_O2'', ''k''])) ''S_O2'' =
     Some ''S_O2'' \<and>
   raised (append_parameters ex_symbols ex_constructed [''a'', '''']) = Some ValueError \<and>
   (\<exists>n \<in> set [''a'', '''']. ex_symbols n = Inl ValueError) \<and>
   (\<exists>q. init ex_load_chemicals ex_parser ex_symbols (sympy_parse_expr ex_parse)
          ''S_NH4 -> 2 S_O2'' ''S_NH4'' (Some ''k'') (Some ex_components) [''COD'', ''N'']
          (Some [''S_O2'', ''k'', ''k'']) = Inr q \<and>
        u_parameters q ''S_O2'' = Some ''S_O2'' \<and> u_parameters q ''k'' = Some ''k'')"
proof -
  note t = parameter_names_unchecked [where symbols = ex_symbols and symbol_of = "\<lambda>n. n"
      and p = ex_constructed and names = "[''S_O2'', ''k'']"]
  note v = parameter_names_unchecked [where symbols = ex_symbols and p = ex_constructed
      and names = "[''a'', '''']" and e = ValueError]
  note u = parameter_names_unchecked [where symbols = ex_symbols and symbol_of = "\<lambda>n. n"
      and names = "[''S_O2'', ''k'', ''k'']"
      and load_chemicals = ex_load_chemicals and components = "Some ex_components"
      and cmps = ex_components and get_stoichiometric_coeff = ex_parser
      and reaction = "''S_NH4 -> 2 S_O2''" and ref = "''S_NH4''" and cons = "[''COD'', ''N'']"
      and st = "NdArray [Finite 2, Finite 0, Finite (- 1)]"
      and tab = "[''S_O2'' \<mapsto> ''S_O2'', ''S_H2O'' \<mapsto> ''S_H2O'', ''S_NH4'' \<mapsto> ''S_NH4'']"
      and parse_expr = "sympy_parse_expr ex_parse" and eq = "Some ''k''" and r = "''k''"]
  have pre: "(\<forall>n \<in> set [''S_O2'', ''k'', ''k'']. ex_symbols n = Inr n) \<and>
    ex_load_chemicals (Some ex_components) = Inr ex_components \<and>
    ex_parser ''S_NH4 -> 2 S_O2'' ''S_NH4'' ex_components [''COD'', ''N'']
      (\<lambda>k. if k \<in> set [''S_O2'', ''k'', ''k''] then Some k else None) =
      Inr (NdArray [Finite 2, Finite 0, Finite (- 1)]) \<and>
    symbols_dict ex_symbols (IDs ex_components) Map.empty =
      Inr [''S_O2'' \<mapsto> ''S_O2'', ''S_H2O'' \<mapsto> ''S_H2O'', ''S_NH4'' \<mapsto> ''S_NH4''] \<and>
    sympy_parse_expr ex_parse (Some ''k'')
      ([''S_O2'' \<mapsto> ''S_O2'', ''S_H2O'' \<mapsto> ''S_H2O'', ''S_NH4'' \<mapsto> ''S_NH4''] ++
       (\<lambda>k. if k \<in> set [''S_O2'', ''k'', ''k''] then Some k else None)) = Inr ''k''"
    by (simp add: ex_load_chemicals_def ex_parser_def sympy_parse_expr_def ex_parse_def
        ex_symbols_def ex_components_def map_add_def)
  from u pre obtain q where q: "init ex_load_chemicals ex_parser ex_symbols (sympy_parse_expr ex_parse)
          ''S_NH4 -> 2 S_O2'' ''S_NH4'' (Some ''k'') (Some ex_components) [''COD'', ''N'']
          (Some [''S_O2'', ''k'', ''k'']) = Inr q"
    and qk: "\<forall>k. u_parameters q k = (if k \<in> set [''S_O2'', ''k'', ''k''] then Some k else None)"
    by blast
  from qk have "u_parameters q ''S_O2'' = Some ''S_O2'' \<and> u_parameters q ''k'' = Some ''k''"
    by simp
  with q have e: "\<exists>q. init ex_load_chemicals ex_parser ex_symbols (sympy_parse_expr ex_parse)
          ''S_NH4 -> 2 S_O2'' ''S_NH4'' (Some ''k'') (Some ex_components) [''COD'', ''N'']
          (Some [''S_O2'', ''k'', ''k'']) = Inr q \<and>
        u_parameters q ''S_O2'' = Some ''S_O2'' \<and> u_parameters q ''k'' = Some ''k''"
    by blast
  have ok: "\<forall>n \<in> set [''S_O2'', ''k'']. ex_symbols n = Inr n"
    by (simp add: ex_symbols_def)
  from t ok have "raised (append_parameters ex_symbols ex_constructed [''S_O2'', ''k'']) = None"
    and "u_parameters (state_of (append_parameters ex_symbols ex_constructed [''S_O2'', ''k''])) ''S_O2'' =
     Some ''S_O2''"
    by simp_all
  moreover have f: "raised (append_parameters ex_symbols ex_constructed [''a'', '''']) = Some ValueError"
    by (simp add: ex_symbols_def)
  moreover from v f have "\<exists>n \<in> set [''a'', '''']. ex_symbols n = Inl ValueError"
    by blast
  ultimately show ?thesis using e by (simp add: ex_constructed_def ex_components_def)
qed

subsection \<open>C7: a construction without a rate equation\<close>

text \<open>
  C7 says that a construction whose rate-equation text is \<open>None\<close> or empty succeeds
  and leaves the rate equation unset. \<open>None\<close> is the declared default of the argument,
  but \<open>_parse_rate_eq\<close> hands the text to \<open>parse_expr\<close> without a guard: with
  sympy's \<open>parse_expr\<close> the construction raises on both texts, and with any
  \<open>parse_expr\<close> at all a construction that succeeds has its rate equation set.
\<close>

theorem init_rate_equation_unguarded:
  "isl (init lc gs sy (sympy_parse_expr parse) reaction ref None comps cons ps) \<and>
   isl (init lc gs sy (sympy_parse_expr parse) reaction ref (Some []) comps cons ps) \<and>
   init lc gs sy pe reaction ref eq comps cons ps \<noteq> Inr (p\<lparr>u_rate_equation := None\<rparr>)"
proof -
  have "init lc gs sy pe reaction ref eq comps cons ps \<noteq> Inr (p\<lparr>u_rate_equation := None\<rparr>)"
  proof
    assume "init lc gs sy pe reaction ref eq comps cons ps = Inr (p\<lparr>u_rate_equation := None\<rparr>)"
    from init_Inr_D [OF this] show False by simp
  qed
  moreover have "isl (init lc gs sy (sympy_parse_expr parse) reaction ref None comps cons ps)"
    by (simp add: init_def parse_rate_eq_def sympy_parse_expr_def split: sum.splits option.splits)
  moreover have "isl (init lc gs sy (sympy_parse_expr parse) reaction ref (Some []) comps cons ps)"
    by (simp add: init_def parse_rate_eq_def sympy_parse_expr_def split: sum.splits option.splits)
  ultimately show ?thesis by simp
qed

subsection \<open>C8: the sparse view\<close>

text \<open>
  C8: with distinct component names, the \<open>stoichiometry\<close> property holds no entry
  that is zero, every entry of it is the coefficient of the component of that name, and
  every component whose coefficient is not zero has its entry.
\<close>

theorem stoichiometry_sparse_view:
  fixes p :: "'e::zero process"
  assumes "distinct (IDs (u_components p))"
  shows "(\<forall>k v. stoichiometry p k = Some v \<longrightarrow> nonzero v) \<and>
         (\<forall>k v. stoichiometry p k = Some v \<longrightarrow>
            (\<exists>i. i < length (IDs (u_components p)) \<and> i < length (entries (u_stoichiometry p)) \<and>
                 IDs (u_components p) ! i = k \<and> entries (u_stoichiometry p) ! i = v)) \<and>
         (\<forall>i. i < length (IDs (u_components p)) \<and> i < length (entries (u_stoichiometry p)) \<and>
              nonzero (entries (u_stoichiometry p) ! i) \<longrightarrow>
              stoichiometry p (IDs (u_components p) ! i) = Some (entries (u_stoichiometry p) ! i))"
proof (intro conjI allI impI)
  fix k v assume "stoichiometry p k = Some v"
  then show "nonzero v"
    by (auto simp: stoichiometry_def split: option.splits if_splits)
next
  fix k v assume "stoichiometry p k = Some v"
  then have "py_dict (zip (IDs (u_components p)) (entries (u_stoichiometry p))) k = Some v"
    by (auto simp: stoichiometry_def split: option.splits if_splits)
  then show "\<exists>i. i < length (IDs (u_components p)) \<and> i < length (entries (u_stoichiometry p)) \<and>
                 IDs (u_components p) ! i = k \<and> entries (u_stoichiometry p) ! i = v"
    by (rule py_dict_zip_SomeD)
next
  fix i
  assume h: "i < length (IDs (u_components p)) \<and> i < length (entries (u_stoichiometry p)) \<and>
              nonzero (entries (u_stoichiometry p) ! i)"
  then have "py_dict (zip (IDs (u_components p)) (entries (u_stoichiometry p))) (IDs (u_components p) ! i)
             = Some (entries (u_stoichiometry p) ! i)"
    using assms by (simp add: py_dict_zip_nth)
  with h show "stoichiometry p (IDs (u_components p) ! i) = Some (entries (u_stoichiometry p) ! i)"
    by (simp add: stoichiometry_def)
qed

theorem stoichiometry_sparse_view_witness:
  "distinct (IDs (u_components ex_process)) \<and>
   stoichiometry ex_process ''S_O2'' = Some (Numeric (Finite 2)) \<and>
   stoichiometry ex_process ''S_H2O'' = None"
proof -
  note v = stoichiometry_sparse_view [OF ex_distinct]
  have "stoichiometry ex_process (IDs (u_components ex_process) ! 0) =
    Some (entries (u_stoichiometry ex_process) ! 0)"
    by (rule v [THEN conjunct2, THEN conjunct2, rule_format])
      (simp add: ex_process_def ex_components_def zero_float64_def)
  then have a: "stoichiometry ex_process ''S_O2'' = Some (Numeric (Finite 2))"
    by (simp add: ex_process_def ex_components_def)
  have b: "stoichiometry ex_process ''S_H2O'' = None"
  proof (cases "stoichiometry ex_process ''S_H2O''")
    case None then show ?thesis .
  next
    case (Some w)
    from v [THEN conjunct1, rule_format, OF Some] have nz: "nonzero w" .
    from v [THEN conjunct2, THEN conjunct1, rule_format, OF Some]
    obtain i where "i < length (IDs (u_components ex_process))"
      and "IDs (u_components ex_process) ! i = ''S_H2O''"
      and "entries (u_stoichiometry ex_process) ! i = w"
      by blast
    with nz show ?thesis
      by (auto simp: ex_process_def ex_components_def zero_float64_def less_Suc_eq numeral_3_eq_3)
  qed
  from ex_distinct a b show ?thesis by simp
qed

subsection \<open>C9: assigning the current reference component again\<close>

text \<open>
  C9 says that, for every process, assigning the species that is the reference component
  already leaves the stoichiometry as it is, the factor being one. The factor is the
  magnitude of that species' coefficient as it stands, and nothing keeps it at one. The
  assignment of \<open>S_H2O\<close> in C4 leaves \<open>S_H2O\<close> as the reference component with the
  coefficient \<open>nan\<close>; assigning \<open>S_H2O\<close> again divides by \<open>nan\<close> and turns
  \<open>inf\<close>, \<open>nan\<close>, \<open>-inf\<close> into \<open>nan\<close>, \<open>nan\<close>, \<open>nan\<close>.
\<close>

theorem same_reference_counterexample:
  "set_ref_component ex_errstate (\<lambda>x. x) ex_process (Some ''S_H2O'') =
     Raised FloatingPointError ex_divided \<and>
   u_ref_component ex_divided = ''S_H2O'' \<and>
   u_stoichiometry ex_divided = NdArray [PInf, NaN, NInf] \<and>
   u_stoichiometry (state_of (set_ref_component ex_errstate (\<lambda>x. x) ex_divided (Some ''S_H2O''))) =
     NdArray [NaN, NaN, NaN] \<and>
   u_stoichiometry (state_of (set_ref_component ex_errstate (\<lambda>x. x) ex_divided (Some ''S_H2O''))) \<noteq>
     u_stoichiometry ex_divided"
  by (simp add: set_ref_component_def normalize_stoichiometry_def normalize_rate_eq_def
      times_rate_def true_divide_raises_def ex_errstate_def Let_def ex_divided_def
      ex_process_def ex_components_def)

text \<open>
  C9, amended: when the coefficient of the reference component has magnitude one,
  assigning the same component again leaves the stoichiometry as it is. For a list of
  expressions the property rests on sympy's \<open>v / 1 = v\<close>, the hypothesis on \<open>'e\<close>.
\<close>

theorem ref_component_same_species:
  fixes p :: "'e::{abs,inverse,times,one} process"
  assumes "ref_normalized p" and "\<forall>v::'e. v / 1 = v"
  shows "u_stoichiometry (state_of (set_ref_component err sympify p (Some (u_ref_component p)))) =
         u_stoichiometry p"
proof (cases "u_ref_component p = []")
  case True
  then show ?thesis by (simp add: set_ref_component_def)
next
  case False
  from assms(1) obtain i where i: "index (u_components p) (u_ref_component p) = Some i"
    by (auto simp: ref_normalized_def split: option.splits)
  show ?thesis
  proof (cases "u_stoichiometry p")
    case (NdArray xs)
    with assms(1) i have "i < length xs" and "\<bar>xs ! i\<bar> = 1"
      by (simp_all add: ref_normalized_def)
    then have "map (\<lambda>v. v / \<bar>xs ! i\<bar>) xs = xs"
      by (simp add: float64_div_one map_idI)
    with False i NdArray \<open>i < length xs\<close> show ?thesis
      by (simp add: set_ref_component_NdArray split: option.splits)
  next
    case (PyList es)
    with assms(1) i have "i < length es" and "\<bar>es ! i\<bar> = 1"
      by (simp_all add: ref_normalized_def)
    then have "map (\<lambda>v. v / \<bar>es ! i\<bar>) es = es"
      using assms(2) by (simp add: map_idI)
    with False i PyList \<open>i < length es\<close> show ?thesis
      by (simp add: set_ref_component_PyList split: option.splits)
  qed
qed

theorem ref_component_same_species_witness:
  "ref_normalized ex_process \<and>
   u_ref_component ex_process = ''S_NH4'' \<and>
   u_stoichiometry (state_of (set_ref_component ex_errstate (\<lambda>x. x) ex_process (Some ''S_NH4''))) =
     NdArray [Finite 2, Finite 0, Finite (- 1)] \<and>
   ref_normalized ex_symbolic \<and>
   u_stoichiometry (state_of (set_ref_component ex_errstate (\<lambda>x. x) ex_symbolic (Some ''S_NH4''))) =
     PyList [Finite 2, Finite 0, Finite (- 1)]"
proof -
  have n: "ref_normalized ex_process" and n': "ref_normalized ex_symbolic"
    by (simp_all add: ref_normalized_def ex_symbolic_def ex_process_def ex_components_def
        one_float64_def)
  have l: "\<forall>v::float64. v / 1 = v" by (simp add: float64_div_one)
  from ref_component_same_species [OF n l, of ex_errstate "\<lambda>x. x"]
    ref_component_same_species [OF n' l, of ex_errstate "\<lambda>x. x"] n n'
  show ?thesis
    by (simp add: ex_symbolic_def ex_process_def)
qed

subsection \<open>C10: a falsy reference component\<close>

text \<open>
  C10: assigning \<open>None\<close> or the empty string to \<open>ref_component\<close> returns without
  an error and leaves the whole object as it was.
\<close>

theorem ref_component_falsy_noop:
  "set_ref_component err sympify p None = Returned p \<and>
   set_ref_component err sympify p (Some []) = Returned p"
  by (simp add: set_ref_component_def)

theorem ref_component_falsy_noop_witness:
  "set_ref_component ex_errstate (\<lambda>x. x) ex_process None = Returned ex_process"
  using ref_component_falsy_noop [of ex_errstate "\<lambda>x. x" ex_process] by simp

end
